theory Spec2Isabelle
  imports Main
begin

section \<open>Plugin repository service: version selection and download options\<close>

text \<open>
  A shallow embedding of \<^verbatim>\<open>pkg/plugins/repo/service.go\<close>. Go strings are byte
  sequences, so they are HOL strings (lists of 8-bit characters). Pointers that may be
  \<^verbatim>\<open>nil\<close> are options; a function returning \<^verbatim>\<open>(T, error)\<close> returns a sum with
  the error on the left. Calls on the manager's logger are collected, in order, in a list
  that every logging function returns beside its result.
\<close>

subsection \<open>Data model\<close>

text \<open>
  The struct declarations live in a file of the package that is not part of the sources at
  hand; each record below has the fields that \<^verbatim>\<open>service.go\<close> reads or writes.
\<close>

record ArchMeta =
  SHA256 :: string

record PluginDownloadOptions =
  Version :: string
  Checksum :: string
  PluginZipURL :: string

text \<open>
  A Go map is \<^verbatim>\<open>nil\<close> or a finite table. The table is an association list, read with
  \<^const>\<open>map_of\<close>; \<^verbatim>\<open>range\<close> visits its entries in some order, which is the order
  of the list. \<^term>\<open>None\<close> is the \<^verbatim>\<open>nil\<close> map and \<^term>\<open>Some []\<close> the empty
  map that is not \<^verbatim>\<open>nil\<close>.
\<close>

type_synonym ArchMap = "(string \<times> ArchMeta) list option"

record Version =
  Version :: string
  Arch :: ArchMap
  AngularDetected :: bool

record Plugin =
  ID :: string
  Versions :: "Version list"

text \<open>
  \<^verbatim>\<open>CompatOpts\<close> has the exported field \<^verbatim>\<open>AngularSupportEnabled\<close> and two methods
  whose bodies are not at hand, \<^verbatim>\<open>OSAndArch()\<close> and \<^verbatim>\<open>Readable()\<close>. Both take no
  argument, so each is a string determined by the value; the record carries these two
  strings as fields.
\<close>

record CompatOpts =
  OSAndArch :: string
  Readable :: string
  AngularSupportEnabled :: bool

text \<open>
  The three error structs built by \<^verbatim>\<open>selectVersion\<close>, with the fields its composite
  literals set, and one constructor for the errors of the external calls (URL parsing,
  transport, JSON decoding).
\<close>

datatype error =
    ErrSupportedVersionNotFound (PluginID: string) (SystemInfo: string)
  | ErrVersionNotFound (PluginID: string) (RequestedVersion: string) (SystemInfo: string)
  | ErrVersionUnsupported (PluginID: string) (RequestedVersion: string) (SystemInfo: string)
  | ErrExternal string

text \<open>
  A call of the logger: \<^verbatim>\<open>Debugf(format, args...)\<close> with its format string and its
  arguments, or \<^verbatim>\<open>Error(msg, err)\<close>.
\<close>

datatype log_entry =
    Debugf string "string list"
  | Error string error

record URL =
  Scheme :: string
  Host :: string
  Path :: string

text \<open>
  The library functions and the HTTP client that \<^verbatim>\<open>pluginMetadata\<close> calls are
  parameters: \<^verbatim>\<open>url.Parse\<close>, \<^verbatim>\<open>path.Join\<close>, \<^verbatim>\<open>json.Unmarshal\<close> into a
  \<^verbatim>\<open>Plugin\<close>, and the client's \<^verbatim>\<open>sendReq\<close>.
\<close>

record Stdlib =
  url_Parse :: "string \<Rightarrow> error + URL"
  path_Join :: "string list \<Rightarrow> string"
  json_Unmarshal :: "string \<Rightarrow> error + Plugin"

record Manager =
  client_sendReq :: "URL \<Rightarrow> CompatOpts \<Rightarrow> error + string"
  baseURL :: string

subsection \<open>Version normalisation\<close>

text \<open>\<^verbatim>\<open>strings.HasPrefix(s, prefix)\<close>.\<close>

definition HasPrefix :: "string \<Rightarrow> string \<Rightarrow> bool" where
  "HasPrefix s p = (length p \<le> length s \<and> take (length p) s = p)"

text \<open>
  \<^verbatim>\<open>strings.ReplaceAll(version, " ", "")\<close> deletes every space byte; a first byte
  \<^verbatim>\<open>^\<close> or \<^verbatim>\<open>v\<close> is then cut off by \<^verbatim>\<open>normalized[1:]\<close>.
\<close>

definition normalizeVersion :: "string \<Rightarrow> string" where
  "normalizeVersion version =
     (let normalized = filter (\<lambda>c. c \<noteq> CHR '' '') version
      in if HasPrefix normalized ''^'' \<or> HasPrefix normalized ''v''
         then drop 1 normalized
         else normalized)"

subsection \<open>Compatibility\<close>

fun supportsCurrentArch_range :: "(string \<times> ArchMeta) list \<Rightarrow> CompatOpts \<Rightarrow> bool" where
  "supportsCurrentArch_range [] compatOpts = False"
| "supportsCurrentArch_range ((arch, meta) # rest) compatOpts =
     (if arch = OSAndArch compatOpts \<or> arch = ''any'' then True
      else supportsCurrentArch_range rest compatOpts)"

definition supportsCurrentArch :: "Version \<Rightarrow> CompatOpts \<Rightarrow> bool" where
  "supportsCurrentArch version compatOpts =
     (case Arch version of
        None \<Rightarrow> True
      | Some m \<Rightarrow> supportsCurrentArch_range m compatOpts)"

definition isVersionCompatible :: "Version \<Rightarrow> CompatOpts \<Rightarrow> bool" where
  "isVersionCompatible version compatOpts =
     (if \<not> supportsCurrentArch version compatOpts then False
      else if \<not> AngularSupportEnabled compatOpts \<and> AngularDetected version then False
      else True)"

fun latestSupportedVersion_range :: "Version list \<Rightarrow> CompatOpts \<Rightarrow> Version option" where
  "latestSupportedVersion_range [] compatOpts = None"
| "latestSupportedVersion_range (v # vs) compatOpts =
     (if \<not> isVersionCompatible v compatOpts then latestSupportedVersion_range vs compatOpts
      else Some v)"

definition latestSupportedVersion :: "Plugin \<Rightarrow> CompatOpts \<Rightarrow> Version option" where
  "latestSupportedVersion plugin compatOpts =
     latestSupportedVersion_range (Versions plugin) compatOpts"

subsection \<open>Version selection\<close>

text \<open>The zero value of the struct, which \<^verbatim>\<open>var ver Version\<close> declares.\<close>

definition zeroVersion :: Version where
  "zeroVersion = \<lparr>Version = [], Arch = None, AngularDetected = False\<rparr>"

text \<open>
  The loop of \<^verbatim>\<open>selectVersion\<close> over \<^verbatim>\<open>plugin.Versions\<close>: \<^verbatim>\<open>ver\<close> becomes the
  first entry whose version string equals \<^verbatim>\<open>version\<close>, and stays the zero value when
  there is none.
\<close>

fun selectVersion_range :: "Version list \<Rightarrow> string \<Rightarrow> Version" where
  "selectVersion_range [] version = zeroVersion"
| "selectVersion_range (v # vs) version =
     (if Version v = version then v else selectVersion_range vs version)"

text \<open>The format strings of the two \<^verbatim>\<open>Debugf\<close> calls in \<^verbatim>\<open>selectVersion\<close>.\<close>

definition notFoundFormat :: string where
  "notFoundFormat =
     ''Requested plugin version %s v%s not found but potential fallback version '%s' was found''"

definition unsupportedFormat :: string where
  "unsupportedFormat =
     ''Requested plugin version %s v%s is not supported on your system but potential fallback version '%s' was found''"

definition selectVersion :: "Plugin \<Rightarrow> string \<Rightarrow> CompatOpts \<Rightarrow> log_entry list \<times> (error + Version)" where
  "selectVersion plugin version0 compatOpts =
     (let version = normalizeVersion version0 in
      case latestSupportedVersion plugin compatOpts of
        None \<Rightarrow>
          ([], Inl (ErrSupportedVersionNotFound (ID plugin) (Readable compatOpts)))
      | Some latestSupported \<Rightarrow>
          if version = [] then ([], Inr latestSupported)
          else
            let ver = selectVersion_range (Versions plugin) version in
            if length (Version ver) = 0 then
              ([Debugf notFoundFormat [ID plugin, version, Version latestSupported]],
               Inl (ErrVersionNotFound (ID plugin) version (Readable compatOpts)))
            else if \<not> isVersionCompatible ver compatOpts then
              ([Debugf unsupportedFormat [ID plugin, version, Version latestSupported]],
               Inl (ErrVersionUnsupported (ID plugin) version (Readable compatOpts)))
            else ([], Inr ver))"

subsection \<open>Metadata and download options\<close>

definition pluginMetadata ::
  "Stdlib \<Rightarrow> Manager \<Rightarrow> string \<Rightarrow> CompatOpts \<Rightarrow> log_entry list \<times> (error + Plugin)" where
  "pluginMetadata lib m pluginID compatOpts =
     (let l = [Debugf ''Fetching metadata for plugin \"%s\" from repo %s'' [pluginID, baseURL m]] in
      case url_Parse lib (baseURL m) of
        Inl err \<Rightarrow> (l, Inl err)
      | Inr u0 \<Rightarrow>
          let u = u0\<lparr>Path := path_Join lib [Path u0, ''repo'', pluginID]\<rparr> in
          (case client_sendReq m u compatOpts of
             Inl err \<Rightarrow> (l, Inl err)
           | Inr body \<Rightarrow>
               (case json_Unmarshal lib body of
                  Inl err \<Rightarrow>
                    (l @ [Error ''Failed to unmarshal plugin repo response error'' err], Inl err)
                | Inr data \<Rightarrow> (l, Inr data))))"

definition GetPluginDownloadOptions ::
  "Stdlib \<Rightarrow> Manager \<Rightarrow> string \<Rightarrow> string \<Rightarrow> CompatOpts \<Rightarrow>
     log_entry list \<times> (error + PluginDownloadOptions)" where
  "GetPluginDownloadOptions lib m pluginID version compatOpts =
     (case pluginMetadata lib m pluginID compatOpts of
        (l1, Inl err) \<Rightarrow> (l1, Inl err)
      | (l1, Inr plugin) \<Rightarrow>
          (case selectVersion plugin version compatOpts of
             (l2, Inl err) \<Rightarrow> (l1 @ l2, Inl err)
           | (l2, Inr v) \<Rightarrow>
               let checksum =
                     (case Arch v of
                        None \<Rightarrow> []
                      | Some a \<Rightarrow>
                          let archMeta =
                                (case map_of a (OSAndArch compatOpts) of
                                   Some am \<Rightarrow> am
                                 | None \<Rightarrow>
                                     (case map_of a ''any'' of
                                        Some am \<Rightarrow> am
                                      | None \<Rightarrow> \<lparr>SHA256 = []\<rparr>))
                          in SHA256 archMeta)
               in (l1 @ l2,
                   Inr \<lparr>PluginDownloadOptions.Version = Version v,
                        Checksum = checksum,
                        PluginZipURL =
                          baseURL m @ ''/'' @ pluginID @ ''/versions/'' @ Version v @ ''/download''\<rparr>)))"

subsection \<open>Sample catalogue\<close>

text \<open>
  A plugin \<open>foo\<close> with three releases, newest first, none of which declares an
  architecture map; the newest one depends on Angular. The requesting system has Angular
  support switched off.
\<close>

definition example_opts :: CompatOpts where
  "example_opts =
     \<lparr>OSAndArch = ''darwin_arm64'', Readable = ''darwin_arm64 without angular'',
      AngularSupportEnabled = False\<rparr>"

definition release_3_0_0 :: Version where
  "release_3_0_0 = \<lparr>Version = ''3.0.0'', Arch = None, AngularDetected = True\<rparr>"

definition release_2_0_0 :: Version where
  "release_2_0_0 = \<lparr>Version = ''2.0.0'', Arch = None, AngularDetected = False\<rparr>"

definition release_1_0_0 :: Version where
  "release_1_0_0 = \<lparr>Version = ''1.0.0'', Arch = None, AngularDetected = False\<rparr>"

definition example_plugin :: Plugin where
  "example_plugin =
     \<lparr>ID = ''foo'', Versions = [release_3_0_0, release_2_0_0, release_1_0_0]\<rparr>"

text \<open>A catalogue that lists the version string \<open>1.0.0\<close> twice, first with Angular.\<close>

definition duplicate_plugin :: Plugin where
  "duplicate_plugin =
     \<lparr>ID = ''foo'',
      Versions = [\<lparr>Version = ''1.0.0'', Arch = None, AngularDetected = True\<rparr>, release_1_0_0]\<rparr>"


definition arch_release :: Version where
  "arch_release =
     \<lparr>Version = ''1.4.2'',
      Arch = Some [(''linux_amd64'', \<lparr>SHA256 = ''sha1''\<rparr>), (''any'', \<lparr>SHA256 = ''sha2''\<rparr>)],
      AngularDetected = False\<rparr>"

definition example_lib :: Stdlib where
  "example_lib =
     \<lparr>url_Parse = (\<lambda>s. Inr \<lparr>Scheme = ''https'', Host = ''grafana.com'', Path = ''/api/plugins''\<rparr>),
      path_Join = (\<lambda>xs. concat xs),
      json_Unmarshal = (\<lambda>body. Inr \<lparr>ID = ''foo'', Versions = [arch_release]\<rparr>)\<rparr>"

definition example_manager :: Manager where
  "example_manager =
     \<lparr>client_sendReq = (\<lambda>u c. Inr ''{}''), baseURL = ''https://grafana.com/api/plugins''\<rparr>"

section \<open>Auxiliary facts about the iterations\<close>

lemmas example_defs =
  example_opts_def release_3_0_0_def release_2_0_0_def release_1_0_0_def example_plugin_def

lemmas select_defs =
  selectVersion_def latestSupportedVersion_def isVersionCompatible_def supportsCurrentArch_def
  normalizeVersion_def HasPrefix_def zeroVersion_def notFoundFormat_def unsupportedFormat_def
  Let_def

lemma HasPrefix_single: "HasPrefix s [a] = (\<exists>t. s = a # t)"
  by (cases s) (auto simp: HasPrefix_def)

lemma supportsCurrentArch_range_iff:
  "supportsCurrentArch_range m c \<longleftrightarrow> OSAndArch c \<in> fst ` set m \<or> ''any'' \<in> fst ` set m"
  by (induction m c rule: supportsCurrentArch_range.induct) auto

lemma latestSupportedVersion_range_Some:
  "latestSupportedVersion_range vs c = Some v \<Longrightarrow> isVersionCompatible v c \<and> v \<in> set vs"
  by (induction vs) (auto split: if_splits)

lemma latestSupportedVersion_range_None:
  "latestSupportedVersion_range vs c = None \<longleftrightarrow> (\<forall>v\<in>set vs. \<not> isVersionCompatible v c)"
  by (induction vs) auto

lemma latestSupportedVersion_range_first:
  "\<forall>x\<in>set pre. \<not> isVersionCompatible x c \<Longrightarrow> isVersionCompatible v c \<Longrightarrow>
   latestSupportedVersion_range (pre @ v # post) c = Some v"
  by (induction pre) auto

lemma selectVersion_range_first:
  "\<forall>x\<in>set pre. Version x \<noteq> s \<Longrightarrow> Version v = s \<Longrightarrow>
   selectVersion_range (pre @ v # post) s = v"
  by (induction pre) auto

lemma selectVersion_range_none:
  "\<forall>x\<in>set vs. Version x \<noteq> s \<Longrightarrow> selectVersion_range vs s = zeroVersion"
  by (induction vs) auto

lemma selectVersion_range_cases:
  "selectVersion_range vs s = zeroVersion \<and> (\<forall>x\<in>set vs. Version x \<noteq> s) \<or>
   (\<exists>pre v post. vs = pre @ v # post \<and> (\<forall>x\<in>set pre. Version x \<noteq> s) \<and> Version v = s \<and>
      selectVersion_range vs s = v)"
proof (cases "\<exists>x\<in>set vs. Version x = s")
  case True
  then obtain pre v post
    where "vs = pre @ v # post" "Version v = s" "\<forall>x\<in>set pre. Version x \<noteq> s"
    using split_list_first_prop [of vs "\<lambda>x. Version x = s"] by blast
  then show ?thesis using selectVersion_range_first by blast
next
  case False
  then show ?thesis using selectVersion_range_none by blast
qed

lemma Version_zeroVersion: "Version zeroVersion = []"
  by (simp add: zeroVersion_def)

lemma latestSupportedVersion_ex:
  "v \<in> set (Versions plugin) \<Longrightarrow> isVersionCompatible v c \<Longrightarrow>
   \<exists>ls. latestSupportedVersion plugin c = Some ls"
  using latestSupportedVersion_range_None [of "Versions plugin" c]
  by (cases "latestSupportedVersion plugin c") (auto simp: latestSupportedVersion_def)

lemma normalizeVersion_filter:
  "filter (\<lambda>c. c \<noteq> CHR '' '') (normalizeVersion v) = normalizeVersion v"
proof -
  have "filter (\<lambda>c. c \<noteq> CHR '' '') (drop 1 (filter (\<lambda>c. c \<noteq> CHR '' '') v)) =
        drop 1 (filter (\<lambda>c. c \<noteq> CHR '' '') v)"
    by (rule filter_True) (auto dest: in_set_dropD)
  then show ?thesis by (simp add: normalizeVersion_def Let_def)
qed

text \<open>The three outcomes of \<open>selectVersion\<close> once a supported release exists.\<close>

lemma selectVersion_Some:
  assumes "latestSupportedVersion plugin c = Some ls"
    and "normalizeVersion version = nv" and "nv \<noteq> []"
  shows "selectVersion plugin version c =
     (let ver = selectVersion_range (Versions plugin) nv in
      if Version ver = [] then
        ([Debugf notFoundFormat [ID plugin, nv, Version ls]],
         Inl (ErrVersionNotFound (ID plugin) nv (Readable c)))
      else if \<not> isVersionCompatible ver c then
        ([Debugf unsupportedFormat [ID plugin, nv, Version ls]],
         Inl (ErrVersionUnsupported (ID plugin) nv (Readable c)))
      else ([], Inr ver))"
  using assms by (simp add: selectVersion_def Let_def)

lemma selectVersion_no_match:
  assumes "latestSupportedVersion plugin c = Some ls"
    and "normalizeVersion version = nv" and "nv \<noteq> []"
    and "\<forall>x\<in>set (Versions plugin). Version x \<noteq> nv"
  shows "selectVersion plugin version c =
           ([Debugf notFoundFormat [ID plugin, nv, Version ls]],
            Inl (ErrVersionNotFound (ID plugin) nv (Readable c)))"
  using assms selectVersion_range_none [of "Versions plugin" nv]
  by (simp add: selectVersion_Some Version_zeroVersion)

lemma selectVersion_first_match:
  assumes "latestSupportedVersion plugin c = Some ls"
    and "normalizeVersion version = nv" and "nv \<noteq> []"
    and "Versions plugin = pre @ v # post" and "\<forall>x\<in>set pre. Version x \<noteq> nv"
    and "Version v = nv"
  shows "selectVersion plugin version c =
           (if \<not> isVersionCompatible v c then
              ([Debugf unsupportedFormat [ID plugin, nv, Version ls]],
               Inl (ErrVersionUnsupported (ID plugin) nv (Readable c)))
            else ([], Inr v))"
proof -
  have "selectVersion_range (Versions plugin) nv = v"
    using assms(4,5,6) by (simp add: selectVersion_range_first)
  with assms(1,2,3,6) show ?thesis
    by (simp add: selectVersion_Some)
qed

section \<open>The compatibility policy\<close>

text \<open>
  Claim C1. Whenever \<open>selectVersion\<close> returns a release and not an error, for any
  plugin metadata, requested version string and compatibility options, that release
  passes \<open>isVersionCompatible\<close> for those options.
\<close>

theorem selectVersion_returns_compatible:
  "snd (selectVersion plugin version compatOpts) = Inr r \<Longrightarrow> isVersionCompatible r compatOpts"
  by (auto simp: selectVersion_def Let_def latestSupportedVersion_def
      dest: latestSupportedVersion_range_Some split: option.splits if_splits)

theorem selectVersion_returns_compatible_witness:
  "snd (selectVersion example_plugin ''1.0.0'' example_opts) = Inr release_1_0_0 \<and>
   isVersionCompatible release_1_0_0 example_opts"
proof -
  have h: "snd (selectVersion example_plugin ''1.0.0'' example_opts) = Inr release_1_0_0"
    by (simp add: example_defs select_defs)
  from selectVersion_returns_compatible [OF h] h show ?thesis by simp
qed

text \<open>
  Claim C2. A release is compatible with the options if and only if it declares no
  architecture map, or its map has the options' exact architecture key or the key
  \<open>any\<close>, and moreover Angular support is enabled in the options or the release is
  not flagged as Angular-detected.
\<close>

theorem isVersionCompatible_iff:
  "isVersionCompatible release c \<longleftrightarrow>
     (case Arch release of
        None \<Rightarrow> True
      | Some m \<Rightarrow> map_of m (OSAndArch c) \<noteq> None \<or> map_of m ''any'' \<noteq> None) \<and>
     (AngularSupportEnabled c \<or> \<not> AngularDetected release)"
  by (auto simp: isVersionCompatible_def supportsCurrentArch_def supportsCurrentArch_range_iff
      map_of_eq_None_iff split: option.splits)

theorem isVersionCompatible_iff_witness:
  "isVersionCompatible
     \<lparr>Version = ''1.4.2'',
      Arch = Some [(''linux_amd64'', \<lparr>SHA256 = ''aa''\<rparr>), (''any'', \<lparr>SHA256 = ''bb''\<rparr>)],
      AngularDetected = False\<rparr> example_opts \<and>
   \<not> isVersionCompatible
     \<lparr>Version = ''1.4.2'', Arch = Some [(''linux_amd64'', \<lparr>SHA256 = ''aa''\<rparr>)],
      AngularDetected = False\<rparr> example_opts \<and>
   \<not> isVersionCompatible release_3_0_0 example_opts"
  using isVersionCompatible_iff [of _ example_opts]
  by (simp add: example_defs)

section \<open>Version selection\<close>

text \<open>
  Claim C3. When the metadata has at least one release compatible with the options and the
  requested version is empty after normalisation, \<open>selectVersion\<close> returns the first
  compatible release in the order of \<open>Versions\<close> as given: every release before it
  in the list is incompatible.
\<close>

theorem selectVersion_latest:
  assumes "\<exists>r\<in>set (Versions plugin). isVersionCompatible r c"
    and "normalizeVersion version = []"
  shows "\<exists>pre r post. Versions plugin = pre @ r # post \<and>
           (\<forall>x\<in>set pre. \<not> isVersionCompatible x c) \<and> isVersionCompatible r c \<and>
           selectVersion plugin version c = ([], Inr r)"
proof -
  from assms(1) obtain pre r post where d: "Versions plugin = pre @ r # post"
      "isVersionCompatible r c" "\<forall>x\<in>set pre. \<not> isVersionCompatible x c"
    using split_list_first_prop [of "Versions plugin" "\<lambda>x. isVersionCompatible x c"] by blast
  then have "latestSupportedVersion plugin c = Some r"
    by (simp add: latestSupportedVersion_def latestSupportedVersion_range_first)
  with assms(2) have "selectVersion plugin version c = ([], Inr r)"
    by (simp add: selectVersion_def)
  with d show ?thesis by blast
qed

theorem selectVersion_latest_witness:
  "(\<exists>r\<in>set (Versions example_plugin). isVersionCompatible r example_opts) \<and>
   normalizeVersion '' v'' = [] \<and>
   selectVersion example_plugin '' v'' example_opts = ([], Inr release_2_0_0)"
proof -
  have comp: "isVersionCompatible release_2_0_0 example_opts"
    and incomp: "\<not> isVersionCompatible release_3_0_0 example_opts"
    by (simp_all add: example_defs select_defs)
  have h1: "\<exists>r\<in>set (Versions example_plugin). isVersionCompatible r example_opts"
    using comp by (simp add: example_plugin_def)
  have h2: "normalizeVersion '' v'' = []"
    by (simp add: normalizeVersion_def HasPrefix_def)
  from selectVersion_latest [OF h1 h2] obtain pre r post
    where d: "Versions example_plugin = pre @ r # post"
      "\<forall>x\<in>set pre. \<not> isVersionCompatible x example_opts" "isVersionCompatible r example_opts"
      "selectVersion example_plugin '' v'' example_opts = ([], Inr r)"
    by blast
  have "r = release_2_0_0"
  proof (cases pre)
    case Nil
    with d(1,3) incomp show ?thesis by (simp add: example_plugin_def)
  next
    case (Cons a pre')
    note c1 = Cons
    show ?thesis
    proof (cases pre')
      case Nil
      with c1 d(1) show ?thesis by (simp add: example_plugin_def)
    next
      case (Cons b pre'')
      with c1 d(1) have "release_2_0_0 \<in> set pre" by (simp add: example_plugin_def)
      with d(2) comp show ?thesis by blast
    qed
  qed
  with d(4) h1 h2 show ?thesis by simp
qed

text \<open>
  Claim C5. When no release of the metadata is compatible with the options,
  \<open>selectVersion\<close> fails with \<open>ErrSupportedVersionNotFound\<close>, which carries the
  plugin id and the readable description of the options, whatever the requested version
  is, also when it names a release of the catalogue.
\<close>

theorem selectVersion_none_supported:
  assumes "\<forall>r\<in>set (Versions plugin). \<not> isVersionCompatible r c"
  shows "selectVersion plugin version c =
           ([], Inl (ErrSupportedVersionNotFound (ID plugin) (Readable c)))"
proof -
  from assms have "latestSupportedVersion plugin c = None"
    by (simp add: latestSupportedVersion_def latestSupportedVersion_range_None)
  then show ?thesis by (simp add: selectVersion_def)
qed

theorem selectVersion_none_supported_witness:
  "\<not> isVersionCompatible release_3_0_0 example_opts \<and>
   release_3_0_0 \<in> set (Versions \<lparr>ID = ''foo'', Versions = [release_3_0_0]\<rparr>) \<and>
   Version release_3_0_0 = normalizeVersion ''3.0.0'' \<and>
   selectVersion \<lparr>ID = ''foo'', Versions = [release_3_0_0]\<rparr> ''3.0.0'' example_opts =
     ([], Inl (ErrSupportedVersionNotFound ''foo'' ''darwin_arm64 without angular''))"
proof -
  have h: "\<forall>r\<in>set (Versions \<lparr>ID = ''foo'', Versions = [release_3_0_0]\<rparr>). \<not> isVersionCompatible r example_opts"
    by (simp add: example_defs select_defs)
  have n: "Version release_3_0_0 = normalizeVersion ''3.0.0''"
    by (simp add: example_defs select_defs)
  from selectVersion_none_supported [OF h, of "''3.0.0''"] h n show ?thesis
    by (simp add: example_opts_def)
qed

text \<open>
  Claim C4, as the code has it. For a requested version that is not empty after
  normalisation: when the first entry in catalogue order whose version string equals the
  normalised request is compatible with the options, \<open>selectVersion\<close> returns exactly
  that entry, wherever it stands in the list. Entries behind it that carry the same version
  string are never looked at.
\<close>

theorem selectVersion_exact:
  assumes "normalizeVersion version \<noteq> []"
    and "Versions plugin = pre @ v # post"
    and "\<forall>x\<in>set pre. Version x \<noteq> normalizeVersion version"
    and "Version v = normalizeVersion version"
    and "isVersionCompatible v c"
  shows "selectVersion plugin version c = ([], Inr v)"
proof -
  from assms(2) have "v \<in> set (Versions plugin)" by simp
  with assms(5) obtain ls where ls: "latestSupportedVersion plugin c = Some ls"
    using latestSupportedVersion_ex by blast
  have "selectVersion_range (Versions plugin) (normalizeVersion version) = v"
    using assms(2,3,4) by (simp add: selectVersion_range_first)
  with ls assms(1,4,5) show ?thesis
    by (simp add: selectVersion_def)
qed

theorem selectVersion_exact_witness:
  "normalizeVersion ''v1.0.0'' \<noteq> [] \<and>
   Versions example_plugin = [release_3_0_0, release_2_0_0] @ release_1_0_0 # [] \<and>
   Version release_3_0_0 \<noteq> normalizeVersion ''v1.0.0'' \<and>
   Version release_2_0_0 \<noteq> normalizeVersion ''v1.0.0'' \<and>
   Version release_1_0_0 = normalizeVersion ''v1.0.0'' \<and>
   isVersionCompatible release_1_0_0 example_opts \<and>
   selectVersion example_plugin ''v1.0.0'' example_opts = ([], Inr release_1_0_0)"
proof -
  have n: "normalizeVersion ''v1.0.0'' = ''1.0.0''"
    by (simp add: normalizeVersion_def HasPrefix_def)
  have h1: "normalizeVersion ''v1.0.0'' \<noteq> []" by (simp add: n)
  have h2: "Versions example_plugin = [release_3_0_0, release_2_0_0] @ release_1_0_0 # []"
    by (simp add: example_plugin_def)
  have h3: "\<forall>x\<in>set [release_3_0_0, release_2_0_0]. Version x \<noteq> normalizeVersion ''v1.0.0''"
    by (simp add: n release_3_0_0_def release_2_0_0_def)
  have h4: "Version release_1_0_0 = normalizeVersion ''v1.0.0''"
    by (simp add: n release_1_0_0_def)
  have h5: "isVersionCompatible release_1_0_0 example_opts"
    by (simp add: example_defs isVersionCompatible_def supportsCurrentArch_def)
  from selectVersion_exact [OF h1 h2 h3 h4 h5] h1 h2 h3 h4 h5 show ?thesis by simp
qed

text \<open>
  The claim as it was stated promises the entry for any compatible entry with the requested
  version string. In \<open>duplicate_plugin\<close> the second entry is such an entry, but the
  loop stops at the first entry with that version string, which is incompatible, and the
  call fails.
\<close>

theorem selectVersion_exact_shadowed:
  "release_1_0_0 \<in> set (Versions duplicate_plugin) \<and>
   normalizeVersion ''1.0.0'' \<noteq> [] \<and>
   Version release_1_0_0 = normalizeVersion ''1.0.0'' \<and>
   isVersionCompatible release_1_0_0 example_opts \<and>
   snd (selectVersion duplicate_plugin ''1.0.0'' example_opts) =
     Inl (ErrVersionUnsupported ''foo'' ''1.0.0'' ''darwin_arm64 without angular'')"
  by (simp add: duplicate_plugin_def example_defs select_defs)

text \<open>
  Claim C6, as the code has it. Let the metadata have a compatible release and let the
  requested version be non-empty after normalisation. Then \<open>selectVersion\<close> fails with
  \<open>ErrVersionNotFound\<close> exactly when no entry has that version string, and with
  \<open>ErrVersionUnsupported\<close> exactly when the first entry with that version string is
  incompatible. Either error carries the plugin id, the normalised requested version and
  the readable description of the options, and nothing else: the version of the latest
  supported release goes to the debug log, as the last argument of the \<open>Debugf\<close> call.
\<close>

theorem selectVersion_errors:
  assumes "\<exists>r\<in>set (Versions plugin). isVersionCompatible r c"
    and "normalizeVersion version = nv" and "nv \<noteq> []"
  shows "\<exists>ls. latestSupportedVersion plugin c = Some ls \<and>
     ((\<exists>l a b d. selectVersion plugin version c = (l, Inl (ErrVersionNotFound a b d))) \<longleftrightarrow>
        (\<forall>x\<in>set (Versions plugin). Version x \<noteq> nv)) \<and>
     ((\<forall>x\<in>set (Versions plugin). Version x \<noteq> nv) \<longrightarrow>
        selectVersion plugin version c =
          ([Debugf notFoundFormat [ID plugin, nv, Version ls]],
           Inl (ErrVersionNotFound (ID plugin) nv (Readable c)))) \<and>
     ((\<exists>l a b d. selectVersion plugin version c = (l, Inl (ErrVersionUnsupported a b d))) \<longleftrightarrow>
        (\<exists>pre v post. Versions plugin = pre @ v # post \<and> (\<forall>x\<in>set pre. Version x \<noteq> nv) \<and>
           Version v = nv \<and> \<not> isVersionCompatible v c)) \<and>
     ((\<exists>pre v post. Versions plugin = pre @ v # post \<and> (\<forall>x\<in>set pre. Version x \<noteq> nv) \<and>
           Version v = nv \<and> \<not> isVersionCompatible v c) \<longrightarrow>
        selectVersion plugin version c =
          ([Debugf unsupportedFormat [ID plugin, nv, Version ls]],
           Inl (ErrVersionUnsupported (ID plugin) nv (Readable c))))"
proof -
  from assms(1) obtain ls where ls: "latestSupportedVersion plugin c = Some ls"
    using latestSupportedVersion_ex by blast
  let ?vs = "Versions plugin"
  let ?first = "\<lambda>pre v post. ?vs = pre @ v # post \<and> (\<forall>x\<in>set pre. Version x \<noteq> nv) \<and> Version v = nv"
  note nomatch = selectVersion_no_match [OF ls assms(2,3)]
  note match = selectVersion_first_match [OF ls assms(2,3)]
  consider (none) "\<forall>x\<in>set ?vs. Version x \<noteq> nv"
    | (some) pre v post where "?first pre v post"
    using selectVersion_range_cases [of ?vs nv] by blast
  then have body: "((\<exists>l a b d. selectVersion plugin version c = (l, Inl (ErrVersionNotFound a b d))) \<longleftrightarrow>
        (\<forall>x\<in>set ?vs. Version x \<noteq> nv)) \<and>
     ((\<exists>l a b d. selectVersion plugin version c = (l, Inl (ErrVersionUnsupported a b d))) \<longleftrightarrow>
        (\<exists>pre v post. ?first pre v post \<and> \<not> isVersionCompatible v c))"
  proof cases
    case none
    then have "\<not> (\<exists>pre v post. ?first pre v post \<and> \<not> isVersionCompatible v c)" by auto
    with none nomatch show ?thesis by auto
  next
    case some
    then have ex: "\<not> (\<forall>x\<in>set ?vs. Version x \<noteq> nv)" by auto
    have uniq: "v' = v" if "?first pre' v' post'" for pre' v' post'
    proof -
      from that have "selectVersion_range ?vs nv = v'"
        by (simp add: selectVersion_range_first)
      moreover from some have "selectVersion_range ?vs nv = v"
        by (simp add: selectVersion_range_first)
      ultimately show ?thesis by simp
    qed
    from some have sel: "selectVersion plugin version c =
           (if \<not> isVersionCompatible v c then
              ([Debugf unsupportedFormat [ID plugin, nv, Version ls]],
               Inl (ErrVersionUnsupported (ID plugin) nv (Readable c)))
            else ([], Inr v))"
      using match by blast
    show ?thesis
    proof (cases "isVersionCompatible v c")
      case True
      with uniq have "\<not> (\<exists>pre v post. ?first pre v post \<and> \<not> isVersionCompatible v c)" by blast
      with True sel ex show ?thesis by simp
    next
      case False
      with some have "\<exists>pre v post. ?first pre v post \<and> \<not> isVersionCompatible v c" by blast
      with False sel ex show ?thesis by simp
    qed
  qed
  have "selectVersion plugin version c =
          ([Debugf unsupportedFormat [ID plugin, nv, Version ls]],
           Inl (ErrVersionUnsupported (ID plugin) nv (Readable c)))"
    if "?first pre v post \<and> \<not> isVersionCompatible v c" for pre v post
    using that match [of pre v post] by simp
  with ls body nomatch show ?thesis by blast
qed

theorem selectVersion_errors_witness:
  "(\<exists>r\<in>set (Versions example_plugin). isVersionCompatible r example_opts) \<and>
   normalizeVersion ''3.0.0'' = ''3.0.0'' \<and> ''3.0.0'' \<noteq> [] \<and>
   selectVersion example_plugin ''3.0.0'' example_opts =
     ([Debugf unsupportedFormat [''foo'', ''3.0.0'', ''2.0.0'']],
      Inl (ErrVersionUnsupported ''foo'' ''3.0.0'' ''darwin_arm64 without angular''))"
proof -
  have h1: "\<exists>r\<in>set (Versions example_plugin). isVersionCompatible r example_opts"
    by (simp add: example_defs isVersionCompatible_def supportsCurrentArch_def)
  have h2: "normalizeVersion ''3.0.0'' = ''3.0.0''"
    by (simp add: normalizeVersion_def HasPrefix_def)
  have h3: "''3.0.0'' \<noteq> []" by simp
  have ls: "latestSupportedVersion example_plugin example_opts = Some release_2_0_0"
    by (simp add: example_defs latestSupportedVersion_def isVersionCompatible_def
        supportsCurrentArch_def)
  have first: "\<exists>pre v post. Versions example_plugin = pre @ v # post \<and>
      (\<forall>x\<in>set pre. Version x \<noteq> ''3.0.0'') \<and> Version v = ''3.0.0'' \<and>
      \<not> isVersionCompatible v example_opts"
    by (rule exI [of _ "[]"], rule exI [of _ release_3_0_0],
        rule exI [of _ "[release_2_0_0, release_1_0_0]"])
      (simp add: example_defs isVersionCompatible_def supportsCurrentArch_def)
  from selectVersion_errors [OF h1 h2 h3] ls first
  have "selectVersion example_plugin ''3.0.0'' example_opts =
      ([Debugf unsupportedFormat [ID example_plugin, ''3.0.0'', Version release_2_0_0]],
       Inl (ErrVersionUnsupported (ID example_plugin) ''3.0.0'' (Readable example_opts)))"
    by auto
  with h1 h2 show ?thesis by (simp add: example_defs)
qed

text \<open>
  The error does not carry the fallback: two catalogues with different latest supported
  releases fail with the very same error value.
\<close>

theorem selectVersion_error_without_fallback:
  "snd (selectVersion example_plugin ''4.0.0'' example_opts) =
     Inl (ErrVersionNotFound ''foo'' ''4.0.0'' ''darwin_arm64 without angular'') \<and>
   snd (selectVersion \<lparr>ID = ''foo'', Versions = [release_1_0_0]\<rparr> ''4.0.0'' example_opts) =
     Inl (ErrVersionNotFound ''foo'' ''4.0.0'' ''darwin_arm64 without angular'') \<and>
   latestSupportedVersion example_plugin example_opts = Some release_2_0_0 \<and>
   latestSupportedVersion \<lparr>ID = ''foo'', Versions = [release_1_0_0]\<rparr> example_opts =
     Some release_1_0_0 \<and>
   Version release_2_0_0 \<noteq> Version release_1_0_0"
  by (simp add: example_defs select_defs)

section \<open>Normalisation of version strings\<close>

text \<open>
  Claim C7, as the code has it. Normalising a second time changes nothing exactly when the
  normalised string does not itself begin with \<open>^\<close> or \<open>v\<close>; and the strings
  \<open>v1.2.3\<close>, \<open>1.2.3\<close> and \<open>^1.2.3\<close> all normalise to \<open>1.2.3\<close>.
\<close>

theorem normalizeVersion_twice:
  "(normalizeVersion (normalizeVersion v) = normalizeVersion v \<longleftrightarrow>
      \<not> HasPrefix (normalizeVersion v) ''^'' \<and> \<not> HasPrefix (normalizeVersion v) ''v'') \<and>
   normalizeVersion ''v1.2.3'' = ''1.2.3'' \<and>
   normalizeVersion ''1.2.3'' = ''1.2.3'' \<and>
   normalizeVersion ''^1.2.3'' = ''1.2.3''"
proof -
  let ?n = "normalizeVersion v"
  have step: "normalizeVersion ?n =
      (if HasPrefix ?n ''^'' \<or> HasPrefix ?n ''v'' then drop 1 ?n else ?n)"
    unfolding normalizeVersion_def [of ?n] Let_def normalizeVersion_filter ..
  have "drop 1 ?n \<noteq> ?n" if "HasPrefix ?n ''^'' \<or> HasPrefix ?n ''v''"
    using that by (auto simp: HasPrefix_single)
  with step have "normalizeVersion ?n = ?n \<longleftrightarrow> \<not> HasPrefix ?n ''^'' \<and> \<not> HasPrefix ?n ''v''"
    by auto
  moreover have "normalizeVersion ''v1.2.3'' = ''1.2.3''" "normalizeVersion ''1.2.3'' = ''1.2.3''"
    "normalizeVersion ''^1.2.3'' = ''1.2.3''"
    by (simp_all add: normalizeVersion_def HasPrefix_def)
  ultimately show ?thesis by blast
qed

theorem normalizeVersion_twice_witness:
  "normalizeVersion (normalizeVersion ''v1.2.3'') = normalizeVersion ''v1.2.3'' \<and>
   \<not> HasPrefix (normalizeVersion ''v1.2.3'') ''^'' \<and> \<not> HasPrefix (normalizeVersion ''v1.2.3'') ''v''"
proof -
  have "\<not> HasPrefix (normalizeVersion ''v1.2.3'') ''^'' \<and> \<not> HasPrefix (normalizeVersion ''v1.2.3'') ''v''"
    by (simp add: normalizeVersion_def HasPrefix_def)
  with normalizeVersion_twice [of "''v1.2.3''"] show ?thesis by blast
qed

text \<open>
  Normalisation cuts off one leading marker only, so it is not idempotent: \<open>vv1.2.3\<close>
  becomes \<open>v1.2.3\<close>, and that becomes \<open>1.2.3\<close>.
\<close>

theorem normalizeVersion_not_idempotent:
  "normalizeVersion (normalizeVersion ''vv1.2.3'') \<noteq> normalizeVersion ''vv1.2.3''"
  by (simp add: normalizeVersion_def HasPrefix_def)




section \<open>Download options\<close>

text \<open>
  Claim C9. When the metadata is fetched and a release is selected,
  \<open>GetPluginDownloadOptions\<close> returns options whose version is the release's version
  string, whose URL is the base URL, the plugin id, \<open>versions\<close>, the version and
  \<open>download\<close> joined by slashes, and whose checksum is empty for a release without
  architecture map and otherwise the checksum stored under the options' architecture key,
  else the one under \<open>any\<close>, else empty. For the map with the keys
  \<open>linux_amd64\<close> and \<open>any\<close> and the architecture \<open>darwin_arm64\<close> it is the
  checksum under \<open>any\<close>.
\<close>

theorem GetPluginDownloadOptions_plan:
  assumes "pluginMetadata lib m pluginID c = (l1, Inr plugin)"
    and "selectVersion plugin version c = (l2, Inr v)"
  shows "\<exists>plan. GetPluginDownloadOptions lib m pluginID version c = (l1 @ l2, Inr plan) \<and>
     PluginDownloadOptions.Version plan = Version v \<and>
     PluginZipURL plan = baseURL m @ ''/'' @ pluginID @ ''/versions/'' @ Version v @ ''/download'' \<and>
     Checksum plan =
       (case Arch v of
          None \<Rightarrow> []
        | Some a \<Rightarrow>
            (case map_of a (OSAndArch c) of
               Some am \<Rightarrow> SHA256 am
             | None \<Rightarrow> (case map_of a ''any'' of Some am \<Rightarrow> SHA256 am | None \<Rightarrow> []))) \<and>
     (Arch v = Some [(''linux_amd64'', \<lparr>SHA256 = sha1\<rparr>), (''any'', \<lparr>SHA256 = sha2\<rparr>)] \<and>
      OSAndArch c = ''darwin_arm64'' \<longrightarrow> Checksum plan = sha2)"
  using assms
  by (auto simp: GetPluginDownloadOptions_def Let_def split: option.splits)

theorem GetPluginDownloadOptions_plan_witness:
  "pluginMetadata example_lib example_manager ''foo'' example_opts =
     ([Debugf ''Fetching metadata for plugin \"%s\" from repo %s''
         [''foo'', ''https://grafana.com/api/plugins'']],
      Inr \<lparr>ID = ''foo'', Versions = [arch_release]\<rparr>) \<and>
   selectVersion \<lparr>ID = ''foo'', Versions = [arch_release]\<rparr> '''' example_opts =
     ([], Inr arch_release) \<and>
   GetPluginDownloadOptions example_lib example_manager ''foo'' '''' example_opts =
     ([Debugf ''Fetching metadata for plugin \"%s\" from repo %s''
         [''foo'', ''https://grafana.com/api/plugins'']],
      Inr \<lparr>PluginDownloadOptions.Version = ''1.4.2'', Checksum = ''sha2'',
           PluginZipURL = ''https://grafana.com/api/plugins/foo/versions/1.4.2/download''\<rparr>)"
proof -
  let ?l = "[Debugf ''Fetching metadata for plugin \"%s\" from repo %s''
         [''foo'', ''https://grafana.com/api/plugins'']]"
  have h1: "pluginMetadata example_lib example_manager ''foo'' example_opts =
     (?l, Inr \<lparr>ID = ''foo'', Versions = [arch_release]\<rparr>)"
    by (simp add: pluginMetadata_def example_lib_def example_manager_def)
  have h2: "selectVersion \<lparr>ID = ''foo'', Versions = [arch_release]\<rparr> '''' example_opts =
     ([], Inr arch_release)"
    by (simp add: arch_release_def example_opts_def select_defs)
  have h3: "Arch arch_release =
      Some [(''linux_amd64'', \<lparr>SHA256 = ''sha1''\<rparr>), (''any'', \<lparr>SHA256 = ''sha2''\<rparr>)] \<and>
      OSAndArch example_opts = ''darwin_arm64''"
    by (simp add: arch_release_def example_opts_def)
  from GetPluginDownloadOptions_plan [OF h1 h2, where ?sha1.0 = "''sha1''" and ?sha2.0 = "''sha2''"]
  obtain plan where
    p: "GetPluginDownloadOptions example_lib example_manager ''foo'' '''' example_opts =
          (?l @ [], Inr plan)"
      "PluginDownloadOptions.Version plan = Version arch_release"
      "PluginZipURL plan =
         baseURL example_manager @ ''/'' @ ''foo'' @ ''/versions/'' @ Version arch_release @ ''/download''"
      "Arch arch_release =
         Some [(''linux_amd64'', \<lparr>SHA256 = ''sha1''\<rparr>), (''any'', \<lparr>SHA256 = ''sha2''\<rparr>)] \<and>
       OSAndArch example_opts = ''darwin_arm64'' \<longrightarrow> Checksum plan = ''sha2''"
    by blast
  from p(4) h3 have "Checksum plan = ''sha2''" by blast
  with p(2,3) have "plan = \<lparr>PluginDownloadOptions.Version = ''1.4.2'', Checksum = ''sha2'',
           PluginZipURL = ''https://grafana.com/api/plugins/foo/versions/1.4.2/download''\<rparr>"
    by (simp add: arch_release_def example_manager_def)
  with p(1) h1 h2 show ?thesis by simp
qed

section \<open>Empty architecture maps\<close>

text \<open>
  Claim C10. A release whose architecture map is empty but not \<open>nil\<close> is incompatible
  with every options value, so \<open>selectVersion\<close> never returns one. A \<open>nil\<close> map
  makes the architecture check succeed without any condition; a map that is not
  \<open>nil\<close> passes it only through one of the two keys.
\<close>

theorem empty_arch_map_incompatible:
  "(Arch release = Some [] \<longrightarrow>
      \<not> supportsCurrentArch release c \<and> \<not> isVersionCompatible release c) \<and>
   (snd (selectVersion plugin version c) = Inr r \<longrightarrow> Arch r \<noteq> Some []) \<and>
   (Arch release = None \<longrightarrow> supportsCurrentArch release c) \<and>
   (\<forall>m. Arch release = Some m \<longrightarrow>
      (supportsCurrentArch release c \<longleftrightarrow>
         map_of m (OSAndArch c) \<noteq> None \<or> map_of m ''any'' \<noteq> None))"
proof -
  have empty: "\<not> supportsCurrentArch x c \<and> \<not> isVersionCompatible x c" if "Arch x = Some []" for x
    using that by (simp add: isVersionCompatible_def supportsCurrentArch_def)
  have "isVersionCompatible r c" if "snd (selectVersion plugin version c) = Inr r"
    using that
    by (auto simp: selectVersion_def Let_def latestSupportedVersion_def
        dest: latestSupportedVersion_range_Some split: option.splits if_splits)
  with empty [of r] have sel: "snd (selectVersion plugin version c) = Inr r \<longrightarrow> Arch r \<noteq> Some []"
    by blast
  have nil: "Arch release = None \<longrightarrow> supportsCurrentArch release c"
    by (simp add: supportsCurrentArch_def)
  have keys: "\<forall>m. Arch release = Some m \<longrightarrow>
      (supportsCurrentArch release c \<longleftrightarrow>
         map_of m (OSAndArch c) \<noteq> None \<or> map_of m ''any'' \<noteq> None)"
    by (simp add: supportsCurrentArch_def supportsCurrentArch_range_iff map_of_eq_None_iff)
  from empty [of release] sel nil keys show ?thesis by blast
qed

theorem empty_arch_map_incompatible_witness:
  "Arch \<lparr>Version = ''1.0.0'', Arch = Some [], AngularDetected = False\<rparr> = Some [] \<and>
   \<not> supportsCurrentArch \<lparr>Version = ''1.0.0'', Arch = Some [], AngularDetected = False\<rparr> example_opts \<and>
   \<not> isVersionCompatible \<lparr>Version = ''1.0.0'', Arch = Some [], AngularDetected = False\<rparr> example_opts \<and>
   snd (selectVersion example_plugin '''' example_opts) = Inr release_2_0_0 \<and>
   Arch release_2_0_0 \<noteq> Some [] \<and>
   Arch release_2_0_0 = None \<and> supportsCurrentArch release_2_0_0 example_opts"
proof -
  let ?r = "\<lparr>Version = ''1.0.0'', Arch = Some [], AngularDetected = False\<rparr>"
  have h1: "Arch ?r = Some []" by simp
  have h2: "snd (selectVersion example_plugin '''' example_opts) = Inr release_2_0_0"
    by (simp add: example_defs select_defs)
  have h3: "Arch release_2_0_0 = None" by (simp add: release_2_0_0_def)
  from empty_arch_map_incompatible [of ?r example_opts] h1
  have "\<not> supportsCurrentArch ?r example_opts \<and> \<not> isVersionCompatible ?r example_opts" by blast
  moreover from empty_arch_map_incompatible [of _ example_opts example_plugin "''''" release_2_0_0] h2
  have "Arch release_2_0_0 \<noteq> Some []" by blast
  moreover from empty_arch_map_incompatible [of release_2_0_0 example_opts] h3
  have "supportsCurrentArch release_2_0_0 example_opts" by blast
  ultimately show ?thesis using h1 h2 h3 by blast
qed

end
